theory Spec2Isabelle
  imports Complex_Main
begin

section \<open>Python values\<close>

text \<open>
  The model follows \<^verbatim>\<open>youtube_music_control/__main__.py\<close>, the module that the console
  script of \<^verbatim>\<open>setup.py\<close> runs. The client handles values that come out of
  \<^verbatim>\<open>json.loads\<close> and \<^verbatim>\<open>response.json()\<close>, plain strings and \<^verbatim>\<open>None\<close>. One datatype
  holds them all: \<open>JNull\<close> is Python's \<^verbatim>\<open>None\<close>, \<open>JObj\<close> is a \<^verbatim>\<open>dict\<close> in insertion order
  (its keys are strings, as JSON object keys are), \<open>JArr\<close> a \<^verbatim>\<open>list\<close>.

  A float is the rational number it denotes, or one of the three special values; how a
  text or an integer is rounded to a double is left to the parameters \<open>float_of_str\<close>
  and \<open>float_of_int\<close> below. The sign of zero is not represented.
\<close>

datatype pyfloat = Finite rat | PosInf | NegInf | NaN

datatype json =
    JNull
  | JBool bool
  | JInt int
  | JFloat pyfloat
  | JStr string
  | JArr "json list"
  | JObj "(string \<times> json) list"

text \<open>
  A value handed to \<^verbatim>\<open>requests\<close> as the \<^verbatim>\<open>json=\<close> argument: a value as above, or the
  one-entry dict \<^verbatim>\<open>{key: loaded}\<close> that \<^verbatim>\<open>process_post_data\<close> builds when \<^verbatim>\<open>key\<close> is
  not a string (then it is no JSON object).
\<close>

datatype body = Val json | Dict1 json json

datatype pyerror =
    AttributeError
  | TypeError
  | KeyError
  | IndexError
  | ValueError
  | JSONDecodeError
  | RecursionError
  | OverflowError
  | InvalidJSONError
  | ConnectionError
  | SystemExit

text \<open>
  \<^verbatim>\<open>except ValueError\<close> catches \<^verbatim>\<open>ValueError\<close> and its subclass \<^verbatim>\<open>JSONDecodeError\<close>
  (that of \<^verbatim>\<open>json\<close> and that of \<^verbatim>\<open>requests\<close>).
\<close>

fun is_value_error :: "pyerror \<Rightarrow> bool" where
  "is_value_error ValueError = True"
| "is_value_error JSONDecodeError = True"
| "is_value_error e = False"

text \<open>The built-ins of Python that the client calls and that are not its own code.\<close>

record builtins =
  json_loads :: "string \<Rightarrow> pyerror + json"
    \<comment> \<open>\<^verbatim>\<open>json.loads\<close>: the value, or the exception it raises (\<^verbatim>\<open>JSONDecodeError\<close> for
       text that is no JSON, \<^verbatim>\<open>ValueError\<close> for an integer of too many digits,
       \<^verbatim>\<open>RecursionError\<close> for nesting that is too deep)\<close>
  str_strip :: "string \<Rightarrow> string"
    \<comment> \<open>\<^verbatim>\<open>s.strip()\<close>: \<open>s\<close> without its leading and trailing whitespace, as Unicode
       defines whitespace\<close>
  str_upper :: "string \<Rightarrow> string"
    \<comment> \<open>\<^verbatim>\<open>s.upper()\<close>, by the Unicode case mapping\<close>
  float_of_str :: "string \<Rightarrow> pyfloat option"
    \<comment> \<open>\<^verbatim>\<open>float(s)\<close> on a \<^verbatim>\<open>str\<close>; \<open>None\<close> is \<^verbatim>\<open>ValueError\<close>\<close>
  float_of_int :: "int \<Rightarrow> pyfloat option"
    \<comment> \<open>\<^verbatim>\<open>float(n)\<close> on an \<^verbatim>\<open>int\<close>; \<open>None\<close> is \<^verbatim>\<open>OverflowError\<close>\<close>

subsection \<open>Operations of the Python values\<close>

text \<open>\<^verbatim>\<open>bool(v)\<close>, as \<^verbatim>\<open>if token:\<close> and \<^verbatim>\<open>if parsed_data:\<close> read it.\<close>

fun truthy :: "json \<Rightarrow> bool" where
  "truthy JNull = False"
| "truthy (JBool b) = b"
| "truthy (JInt n) = (n \<noteq> 0)"
| "truthy (JFloat f) = (f \<noteq> Finite 0)"
| "truthy (JStr s) = (s \<noteq> [])"
| "truthy (JArr xs) = (xs \<noteq> [])"
| "truthy (JObj kvs) = (kvs \<noteq> [])"

text \<open>\<^verbatim>\<open>isinstance(v, dict)\<close>.\<close>

fun is_dict :: "json \<Rightarrow> bool" where
  "is_dict (JObj kvs) = True"
| "is_dict v = False"

text \<open>\<^verbatim>\<open>d.get(k, default)\<close>: only a dict has the method.\<close>

fun py_get :: "json \<Rightarrow> string \<Rightarrow> json \<Rightarrow> pyerror + json" where
  "py_get (JObj kvs) k dflt = Inr (case map_of kvs k of Some v \<Rightarrow> v | None \<Rightarrow> dflt)"
| "py_get v k dflt = Inl AttributeError"

text \<open>\<^verbatim>\<open>d.items()\<close>.\<close>

fun py_items :: "json \<Rightarrow> pyerror + (string \<times> json) list" where
  "py_items (JObj kvs) = Inr kvs"
| "py_items v = Inl AttributeError"

text \<open>\<^verbatim>\<open>needle in s\<close> on two strings: \<open>needle\<close> occurs in \<open>s\<close> as a substring.\<close>

fun str_contains :: "string \<Rightarrow> string \<Rightarrow> bool" where
  "str_contains needle [] = (needle = [])"
| "str_contains needle (c # cs) =
     (take (length needle) (c # cs) = needle \<or> str_contains needle cs)"

text \<open>
  \<^verbatim>\<open>k in v\<close> for a string \<open>k\<close>: a key of a dict, an element of a list, a substring of a
  string; the other values are not iterable.
\<close>

fun py_in :: "string \<Rightarrow> json \<Rightarrow> pyerror + bool" where
  "py_in k (JObj kvs) = Inr (k \<in> set (map fst kvs))"
| "py_in k (JArr xs) = Inr (JStr k \<in> set xs)"
| "py_in k (JStr s) = Inr (str_contains k s)"
| "py_in k v = Inl TypeError"

text \<open>\<^verbatim>\<open>v[k]\<close> for a string \<open>k\<close>.\<close>

fun py_getitem :: "json \<Rightarrow> string \<Rightarrow> pyerror + json" where
  "py_getitem (JObj kvs) k = (case map_of kvs k of Some v \<Rightarrow> Inr v | None \<Rightarrow> Inl KeyError)"
| "py_getitem v k = Inl TypeError"

text \<open>\<^verbatim>\<open>len(v)\<close>.\<close>

fun py_len :: "json \<Rightarrow> pyerror + nat" where
  "py_len (JStr s) = Inr (length s)"
| "py_len (JArr xs) = Inr (length xs)"
| "py_len (JObj kvs) = Inr (length kvs)"
| "py_len v = Inl TypeError"

text \<open>\<^verbatim>\<open>v[0]\<close>: a dict from JSON has no key \<^verbatim>\<open>0\<close>.\<close>

fun py_first :: "json \<Rightarrow> pyerror + json" where
  "py_first (JArr (x # xs)) = Inr x"
| "py_first (JArr []) = Inl IndexError"
| "py_first (JStr (c # cs)) = Inr (JStr [c])"
| "py_first (JStr []) = Inl IndexError"
| "py_first (JObj kvs) = Inl KeyError"
| "py_first v = Inl TypeError"

text \<open>A list and a dict cannot be a dict key.\<close>

fun hashable :: "json \<Rightarrow> bool" where
  "hashable (JArr xs) = False"
| "hashable (JObj kvs) = False"
| "hashable v = True"

text \<open>
  \<^verbatim>\<open>float(v)\<close>. Every exception it raises is caught by the one caller
  (\<^verbatim>\<open>except Exception: pass\<close>), so the failure is \<open>None\<close>. \<^verbatim>\<open>bool\<close> is a subclass of
  \<^verbatim>\<open>int\<close>: \<^verbatim>\<open>float(True)\<close> is \<^verbatim>\<open>1.0\<close>.
\<close>

fun py_float :: "builtins \<Rightarrow> json \<Rightarrow> pyfloat option" where
  "py_float bi (JBool b) = Some (Finite (if b then 1 else 0))"
| "py_float bi (JInt n) = float_of_int bi n"
| "py_float bi (JFloat f) = Some f"
| "py_float bi (JStr s) = float_of_str bi s"
| "py_float bi v = None"

text \<open>\<^verbatim>\<open>value.is_integer()\<close> and \<^verbatim>\<open>int(value)\<close> (truncation towards zero).\<close>

fun is_integer :: "pyfloat \<Rightarrow> bool" where
  "is_integer (Finite r) = (of_int \<lfloor>r\<rfloor> = r)"
| "is_integer f = False"

fun py_int :: "pyfloat \<Rightarrow> pyerror + int" where
  "py_int (Finite r) = Inr (if 0 \<le> r then \<lfloor>r\<rfloor> else \<lceil>r\<rceil>)"
| "py_int NaN = Inl ValueError"
| "py_int f = Inl OverflowError"

text \<open>
  \<^verbatim>\<open>requests\<close> encodes the \<^verbatim>\<open>json=\<close> argument by \<^verbatim>\<open>json.dumps(v, allow_nan=False)\<close>, which
  raises for a value that holds \<^verbatim>\<open>nan\<close> or an infinity anywhere.
\<close>

fun finite_float :: "pyfloat \<Rightarrow> bool" where
  "finite_float (Finite r) = True"
| "finite_float f = False"

fun nonfinite :: "json \<Rightarrow> bool" where
  "nonfinite (JFloat f) = (\<not> finite_float f)"
| "nonfinite (JArr xs) = list_ex nonfinite xs"
| "nonfinite (JObj kvs) = list_ex (\<lambda>kv. nonfinite (snd kv)) kvs"
| "nonfinite v = False"

fun encodable :: "body \<Rightarrow> bool" where
  "encodable (Val v) = (\<not> nonfinite v)"
| "encodable (Dict1 k v) = (\<not> nonfinite k \<and> \<not> nonfinite v)"

subsection \<open>Strings\<close>

text \<open>
  A \<^verbatim>\<open>str\<close> is the list of its characters. Equality, length, slicing, the prefix and
  suffix tests and the stripping of one given character are defined here; \<^verbatim>\<open>strip()\<close>
  and \<^verbatim>\<open>upper()\<close>, which depend on the Unicode tables, are the parameters \<open>str_strip\<close> and
  \<open>str_upper\<close> above.
\<close>

definition rstrip :: "char \<Rightarrow> string \<Rightarrow> string" where
  "rstrip c s = rev (dropWhile (\<lambda>x. x = c) (rev s))"

definition lstrip :: "char \<Rightarrow> string \<Rightarrow> string" where
  "lstrip c s = dropWhile (\<lambda>x. x = c) s"

definition startswith :: "string \<Rightarrow> string \<Rightarrow> bool" where
  "startswith s p = (take (length p) s = p)"

definition endswith :: "string \<Rightarrow> string \<Rightarrow> bool" where
  "endswith s p = (length p \<le> length s \<and> drop (length s - length p) s = p)"

subsection \<open>Dictionaries in insertion order\<close>

text \<open>
  \<^verbatim>\<open>d[k] = v\<close>: an existing key keeps its place, a new key goes to the end.
\<close>

fun dict_set :: "('k \<times> 'v) list \<Rightarrow> 'k \<Rightarrow> 'v \<Rightarrow> ('k \<times> 'v) list" where
  "dict_set [] k v = [(k, v)]"
| "dict_set ((k', v') # kvs) k v =
     (if k' = k then (k, v) # kvs else (k', v') # dict_set kvs k v)"

text \<open>\<^verbatim>\<open>d.get(key, default)\<close> for a key that need not be a string.\<close>

fun py_get_any :: "json \<Rightarrow> json \<Rightarrow> json \<Rightarrow> pyerror + json" where
  "py_get_any (JObj kvs) key dflt =
     (if \<not> hashable key then Inl TypeError
      else case key of
             JStr k \<Rightarrow> Inr (case map_of kvs k of Some v \<Rightarrow> v | None \<Rightarrow> dflt)
           | _ \<Rightarrow> Inr dflt)"
| "py_get_any v key dflt = Inl AttributeError"

text \<open>Sequencing of steps that may raise: the first exception ends the computation.\<close>

definition and_then :: "pyerror + 'a \<Rightarrow> ('a \<Rightarrow> pyerror + 'b) \<Rightarrow> pyerror + 'b" where
  "and_then m f = (case m of Inl e \<Rightarrow> Inl e | Inr x \<Rightarrow> f x)"

section \<open>The HTTP transport and the output\<close>

text \<open>
  What the client reads of a \<^verbatim>\<open>requests.Response\<close>. \<open>resp_json\<close> is the result of
  \<^verbatim>\<open>response.json()\<close>: the value, or the exception it raises. \<^verbatim>\<open>response.ok\<close> is
  False exactly for the statuses 400 to 599 (\<^verbatim>\<open>raise_for_status\<close> raises for them).
\<close>

record response =
  status_code :: int
  reason :: string
  resp_text :: string
  resp_json :: "pyerror + json"

definition ok :: "response \<Rightarrow> bool" where
  "ok r = (\<not> (400 \<le> status_code r \<and> status_code r < 600))"

text \<open>
  A call of \<^verbatim>\<open>requests\<close>: the method, the URL, the value interpolated into the header
  \<^verbatim>\<open>Authorization: Bearer {token}\<close> (\<open>None\<close> when no header is passed) and the \<^verbatim>\<open>json=\<close>
  argument (\<open>Val JNull\<close> when there is none). The server is a function from the
  call to its response; \<open>None\<close> is any exception that \<^verbatim>\<open>requests\<close> raises for the call
  once its body is encoded (an invalid URL or header, a failed connection), after which
  no response is there to read.
\<close>

record request =
  meth :: string
  url :: string
  bearer :: "json option"
  payload :: body

type_synonym http = "request \<Rightarrow> response option"

text \<open>
  A printed line is the list of the pieces of its f-string: literal text, a number, the
  \<^verbatim>\<open>str()\<close> of a value, or \<^verbatim>\<open>json.dumps(v, indent=2)\<close>.
\<close>

datatype frag = Lit string | Num int | Str json | Dump body

datatype event =
    Http request
  | Print "frag list"
  | PrintHelp
  | UsageError string

text \<open>The HTTP calls among the events, in order: what was handed to the transport.\<close>

fun sent :: "event list \<Rightarrow> request list" where
  "sent [] = []"
| "sent (Http q # es) = q # sent es"
| "sent (ev # es) = sent es"

text \<open>A run: what happened, in order, and the result or the exception that ended it.\<close>

type_synonym 'a run = "event list \<times> (pyerror + 'a)"

definition then_run :: "'a run \<Rightarrow> ('a \<Rightarrow> 'b run) \<Rightarrow> 'b run" where
  "then_run m f =
     (case m of
        (es, Inl e) \<Rightarrow> (es, Inl e)
      | (es, Inr x) \<Rightarrow> (case f x of (es', r) \<Rightarrow> (es @ es', r)))"

section \<open>The endpoint catalog\<close>

record descriptor =
  description :: json
  data :: json
  schema :: json

type_synonym methods = "(string \<times> descriptor) list"

type_synonym catalog = "(string \<times> methods) list"

section \<open>class API\<close>

record API =
  server :: string
  api :: string

definition API_init :: "string \<Rightarrow> string \<Rightarrow> API" where
  "API_init server' api' = \<lparr>server = rstrip CHR ''/'' server', api = rstrip CHR ''/'' api'\<rparr>"

definition failed_lines :: "response \<Rightarrow> string \<Rightarrow> event list" where
  "failed_lines r u =
     [Print [Lit ''Request failed: '', Num (status_code r), Lit '' '', Lit (reason r)],
      Print [Lit u]]"

definition auth_request :: "API \<Rightarrow> string \<Rightarrow> request" where
  "auth_request self username =
     \<lparr>meth = ''POST'', url = server self @ ''/auth/'' @ username,
      bearer = None, payload = Val JNull\<rparr>"

definition authenticate :: "http \<Rightarrow> API \<Rightarrow> string \<Rightarrow> bool \<Rightarrow> json run" where
  "authenticate http self username verbose =
     (let req = auth_request self username in
      case http req of
        None \<Rightarrow> ([Http req], Inl ConnectionError)
      | Some r \<Rightarrow>
          if status_code r \<noteq> 200 then (Http req # failed_lines r (url req), Inr JNull)
          else
            (Http req #
               (if verbose
                then [Print [Lit ''POST '', Lit (url req), Lit '' '', Num (status_code r)]]
                else []),
             case resp_json r of
               Inl e \<Rightarrow> Inl e
             | Inr j \<Rightarrow> py_get j ''accessToken'' JNull))"

text \<open>The body of the inner loop of \<^verbatim>\<open>fetch_api_doc\<close>: one method of one path.\<close>

definition method_entry ::
    "builtins \<Rightarrow> string \<Rightarrow> string \<Rightarrow> json \<Rightarrow> pyerror + (string \<times> descriptor)" where
  "method_entry bi endpoint method0 details =
     (let method = str_upper bi method0 in
      and_then (py_get details ''description'' (JStr endpoint)) (\<lambda>descr.
      and_then
        (if method \<in> {''POST'', ''PATCH''} then py_in ''requestBody'' details else Inr False)
        (\<lambda>has_body.
      and_then
        (if has_body
         then
           and_then (py_getitem details ''requestBody'') (\<lambda>req_body.
           and_then (py_get req_body ''description'' (JStr ''no description'')) (\<lambda>d.
           and_then (py_get req_body ''content'' (JObj [])) (\<lambda>content.
           and_then (py_in ''application/json'' content) (\<lambda>has_json.
           if has_json
           then
             and_then (py_getitem content ''application/json'') (\<lambda>aj.
             and_then (py_get aj ''schema'' (JObj [])) (\<lambda>s. Inr (d, s)))
           else Inr (d, JNull)))))
         else Inr (JNull, JNull))
        (\<lambda>(d, s). Inr (method, \<lparr>description = descr, data = d, schema = s\<rparr>)))))"

text \<open>\<^verbatim>\<open>endpoints[endpoint][method] = {...}\<close> for every method of a path, in order.\<close>

fun add_methods ::
    "builtins \<Rightarrow> string \<Rightarrow> (string \<times> json) list \<Rightarrow> catalog \<Rightarrow> pyerror + catalog" where
  "add_methods bi endpoint [] endpoints = Inr endpoints"
| "add_methods bi endpoint ((method, details) # rest) endpoints =
     (case method_entry bi endpoint method details of
        Inl e \<Rightarrow> Inl e
      | Inr (m, d) \<Rightarrow>
          (case map_of endpoints endpoint of
             None \<Rightarrow> Inl KeyError
           | Some ms \<Rightarrow>
               add_methods bi endpoint rest (dict_set endpoints endpoint (dict_set ms m d))))"

text \<open>The loop over \<^verbatim>\<open>paths.items()\<close>.\<close>

definition endpoint_name :: "string \<Rightarrow> string \<Rightarrow> string" where
  "endpoint_name api' path = lstrip CHR ''/'' (drop (length api') path)"

fun process_paths ::
    "builtins \<Rightarrow> string \<Rightarrow> (string \<times> json) list \<Rightarrow> catalog \<Rightarrow> pyerror + catalog" where
  "process_paths bi api' [] endpoints = Inr endpoints"
| "process_paths bi api' ((path, methods) # rest) endpoints =
     (if \<not> startswith path api' then process_paths bi api' rest endpoints
      else if endswith path ''-info'' then process_paths bi api' rest endpoints
      else
        let endpoint = endpoint_name api' path;
            endpoints1 =
              (if endpoint \<notin> set (map fst endpoints) then dict_set endpoints endpoint []
               else endpoints)
        in case py_items methods of
             Inl e \<Rightarrow> Inl e
           | Inr ms \<Rightarrow>
               (case add_methods bi endpoint ms endpoints1 of
                  Inl e \<Rightarrow> Inl e
                | Inr endpoints2 \<Rightarrow> process_paths bi api' rest endpoints2))"

definition doc_request :: "API \<Rightarrow> request" where
  "doc_request self =
     \<lparr>meth = ''GET'', url = server self @ ''/doc'', bearer = None, payload = Val JNull\<rparr>"

text \<open>
  In \<^verbatim>\<open>fetch_api_doc\<close> the \<^verbatim>\<open>try\<close> around the verbose print of the document catches every
  exception of \<^verbatim>\<open>response.json()\<close>; the second call, outside it, raises the same again.
\<close>

definition fetch_api_doc :: "builtins \<Rightarrow> http \<Rightarrow> API \<Rightarrow> bool \<Rightarrow> bool \<Rightarrow> catalog run" where
  "fetch_api_doc bi http self verbose print_data =
     (let req = doc_request self in
      case http req of
        None \<Rightarrow> ([Http req], Inl ConnectionError)
      | Some r \<Rightarrow>
          if status_code r \<noteq> 200 then (Http req # failed_lines r (url req), Inr [])
          else
            (Http req #
               (if verbose
                then [Print [Lit ''GET '', Lit (url req), Lit '' '', Num (status_code r)]]
                else []) @
               (if print_data \<and> str_strip bi (resp_text r) \<noteq> []
                then [case resp_json r of
                        Inr d \<Rightarrow> Print [Dump (Val d)]
                      | Inl e \<Rightarrow> Print [Lit (resp_text r)]]
                else []),
             case resp_json r of
               Inl e \<Rightarrow> Inl e
             | Inr api_doc \<Rightarrow>
                 and_then (py_get api_doc ''paths'' (JObj [])) (\<lambda>paths.
                 and_then (py_items paths) (\<lambda>ps.
                 process_paths bi (api self) ps []))))"

definition request_url :: "API \<Rightarrow> string \<Rightarrow> string" where
  "request_url self endpoint = server self @ api self @ ''/'' @ endpoint"

text \<open>
  \<^verbatim>\<open>json.dumps\<close> of the request body with the default \<^verbatim>\<open>allow_nan\<close> cannot raise here
  (its values are JSON values, its keys strings, numbers, booleans or \<^verbatim>\<open>None\<close>), so the
  \<^verbatim>\<open>except\<close> branch of the verbose print is never taken. \<^verbatim>\<open>requests.request\<close> raises
  \<^verbatim>\<open>InvalidJSONError\<close> before anything is sent when the body is not \<open>encodable\<close>. Of the
  exceptions of \<^verbatim>\<open>response.json()\<close>, \<^verbatim>\<open>except ValueError\<close> catches the value errors; any
  other ends the run.
\<close>

definition make_request ::
    "builtins \<Rightarrow> http \<Rightarrow> API \<Rightarrow> json \<Rightarrow> string \<Rightarrow> string \<Rightarrow> bool \<Rightarrow> body \<Rightarrow> unit run"
  where
  "make_request bi http self token endpoint http_method verbose post_data =
     (let req = \<lparr>meth = http_method, url = request_url self endpoint,
                 bearer = Some token, payload = post_data\<rparr>;
          shown =
            (if verbose \<and> http_method \<in> {''POST'', ''PATCH''} \<and> post_data \<noteq> Val JNull
             then [Print [Dump post_data]] else [])
      in if post_data \<noteq> Val JNull \<and> \<not> encodable post_data
         then (shown, Inl InvalidJSONError)
         else
           case http req of
             None \<Rightarrow> (shown @ [Http req], Inl ConnectionError)
           | Some r \<Rightarrow>
               if \<not> ok r then (shown @ Http req # failed_lines r (url req), Inr ())
               else
                 let stripped = str_strip bi (resp_text r);
                     parsed =
                       (if stripped \<noteq> []
                        then (case resp_json r of
                                Inr v \<Rightarrow> Inr v
                              | Inl e \<Rightarrow> if is_value_error e then Inr (JStr stripped) else Inl e)
                        else Inr JNull)
                 in then_run (shown @ [Http req], parsed) (\<lambda>parsed_data.
                      ((if verbose
                        then [Print [Lit http_method, Lit '' '', Lit (url req), Lit '' '',
                                     Num (status_code r)]]
                        else []) @
                       (if truthy parsed_data
                        then (if is_dict parsed_data
                              then [Print [Dump (Val parsed_data)]]
                              else [Print [Str parsed_data]])
                        else []),
                       Inr ())))"

section \<open>The command line\<close>

text \<open>
  The namespace that \<^verbatim>\<open>parse_arguments\<close> returns. \<open>a_endpoint\<close> and \<open>a_data\<close> are \<open>None\<close>
  when the positional argument is absent.
\<close>

record args =
  a_server :: string
  a_api :: string
  a_user :: string
  a_patch :: bool
  a_delete :: bool
  a_list :: bool
  a_verbose :: bool
  a_endpoint :: "string option"
  a_data :: "string option"

definition display_methods :: "methods \<Rightarrow> frag list" where
  "display_methods ms =
     concat (map (\<lambda>(method, details).
       (if length ms = 1 then [Lit '': '', Str (description details)]
        else [Lit (CHR 0x0A # ''    '' @ method @ '': ''), Str (description details)]) @
       (if method \<in> {''POST'', ''PATCH''} \<and> truthy (data details)
        then [Lit '' (data: '', Str (data details), Lit '')''] else [])) ms)"

definition display_endpoints :: "catalog \<Rightarrow> event list" where
  "display_endpoints endpoints =
     (if endpoints = [] then [Print [Lit ''No endpoints found!'']]
      else Print [Lit ''Available API endpoints:''] #
           map (\<lambda>(endpoint, ms). Print (Lit (''  '' @ endpoint) # display_methods ms))
             endpoints)"

text \<open>\<^verbatim>\<open>endpoints.get(args.endpoint)\<close>: \<^verbatim>\<open>None\<close> is no key of the catalog.\<close>

definition lookup_endpoint :: "catalog \<Rightarrow> string option \<Rightarrow> methods option" where
  "lookup_endpoint endpoints e = (case e of None \<Rightarrow> None | Some n \<Rightarrow> map_of endpoints n)"

definition determine_http_method :: "args \<Rightarrow> catalog \<Rightarrow> pyerror + string" where
  "determine_http_method args endpoints =
     (if a_delete args then Inr ''DELETE''
      else if a_patch args then Inr ''PATCH''
      else if a_data args \<noteq> None then Inr ''POST''
      else case lookup_endpoint endpoints (a_endpoint args) of
             None \<Rightarrow> Inr ''GET''
           | Some ms \<Rightarrow>
               if ''GET'' \<in> set (map fst ms) then Inr ''GET''
               else (case map fst ms of
                       [] \<Rightarrow> Inl IndexError
                     | m # rest \<Rightarrow> Inr m))"

text \<open>
  The numeric coercion of \<^verbatim>\<open>process_post_data\<close>: \<^verbatim>\<open>float(loaded)\<close>, narrowed by
  \<^verbatim>\<open>int(value)\<close> when \<^verbatim>\<open>value.is_integer()\<close>; any exception leaves \<^verbatim>\<open>loaded\<close> as it was.
\<close>

definition coerce_number :: "builtins \<Rightarrow> json \<Rightarrow> json" where
  "coerce_number bi loaded =
     (case py_float bi loaded of
        None \<Rightarrow> loaded
      | Some v \<Rightarrow>
          if is_integer v then (case py_int v of Inr n \<Rightarrow> JInt n | Inl e \<Rightarrow> loaded)
          else JFloat v)"

text \<open>The last lines of \<^verbatim>\<open>process_post_data\<close>, from \<^verbatim>\<open>key = required[0]\<close> on.\<close>

definition wrap_required :: "builtins \<Rightarrow> json \<Rightarrow> json \<Rightarrow> json \<Rightarrow> pyerror + body" where
  "wrap_required bi properties required loaded =
     and_then (py_first required) (\<lambda>key.
     and_then (py_get_any properties key (JObj [])) (\<lambda>prop.
     and_then (py_get prop ''type'' JNull) (\<lambda>ty.
       let loaded1 = (if ty = JStr ''number'' then coerce_number bi loaded else loaded)
       in Inr (case key of
                 JStr k \<Rightarrow> Val (JObj [(k, loaded1)])
               | _ \<Rightarrow> Dict1 key loaded1))))"

text \<open>
  The \<^verbatim>\<open>try\<close> around \<^verbatim>\<open>json.loads(args.data)\<close>: only \<^verbatim>\<open>json.JSONDecodeError\<close> is caught, and
  then the text itself is the value.
\<close>

definition load_data :: "builtins \<Rightarrow> string \<Rightarrow> pyerror + json" where
  "load_data bi raw =
     (case json_loads bi raw of
        Inr v \<Rightarrow> Inr v
      | Inl e \<Rightarrow> if e = JSONDecodeError then Inr (JStr raw) else Inl e)"

definition endpoint_str :: "args \<Rightarrow> string" where
  "endpoint_str args = (case a_endpoint args of None \<Rightarrow> ''None'' | Some e \<Rightarrow> e)"

definition process_post_data :: "builtins \<Rightarrow> string \<Rightarrow> args \<Rightarrow> catalog \<Rightarrow> body run" where
  "process_post_data bi http_method args endpoints =
     (if http_method \<notin> {''POST'', ''PATCH''} then ([], Inr (Val JNull))
      else case a_data args of
        None \<Rightarrow> ([], Inr (Val JNull))
      | Some raw \<Rightarrow>
          then_run ([], load_data bi raw) (\<lambda>loaded.
          if is_dict loaded then ([], Inr (Val loaded))
          else
            let endpoint_doc =
                  (case lookup_endpoint endpoints (a_endpoint args) of
                     Some ms \<Rightarrow> ms
                   | None \<Rightarrow> []);
                schema' =
                  (case map_of endpoint_doc http_method of
                     Some d \<Rightarrow> schema d
                   | None \<Rightarrow> JNull)
            in if schema' = JNull
               then ([Print [Lit (''No '' @ http_method @ '' data schema for '' @
                               endpoint_str args)]],
                     Inr (Val JNull))
               else
                 then_run ([], py_get schema' ''type'' JNull) (\<lambda>ty.
                 if ty \<noteq> JStr ''object'' then ([], Inr (Val loaded))
                 else
                   then_run ([], py_get schema' ''properties'' (JObj [])) (\<lambda>properties.
                   then_run ([], py_get schema' ''required'' (JArr [])) (\<lambda>required.
                   then_run ([], py_len required) (\<lambda>n.
                   if n \<noteq> 1
                   then ([Print [Lit (endpoint_str args @ '' '' @ http_method @
                                   '' requires an object'')]],
                         Inr (Val JNull))
                   else ([], wrap_required bi properties required loaded)))))))"

text \<open>
  \<^verbatim>\<open>main\<close>, from the parsed arguments on. \<^verbatim>\<open>parse_arguments\<close> ends the process with
  a usage error when both \<^verbatim>\<open>--delete\<close> and \<^verbatim>\<open>--patch\<close> are given.
\<close>

definition usage_message :: string where
  "usage_message = ''Cannot specify both --delete and --patch options simultaneously.''"

definition main :: "builtins \<Rightarrow> http \<Rightarrow> args \<Rightarrow> unit run" where
  "main bi http args =
     (if a_delete args \<and> a_patch args then ([UsageError usage_message], Inl SystemExit)
      else
        let self = API_init (a_server args) (a_api args) in
        if a_list args
        then then_run (fetch_api_doc bi http self (a_verbose args) (a_verbose args))
               (\<lambda>endpoints. (display_endpoints endpoints, Inr ()))
        else
          case a_endpoint args of
            None \<Rightarrow> ([PrintHelp], Inr ())
          | Some endpoint \<Rightarrow>
              if endpoint = [] then ([PrintHelp], Inr ())
              else
                then_run (fetch_api_doc bi http self (a_verbose args) False) (\<lambda>endpoints.
                then_run ([], determine_http_method args endpoints) (\<lambda>http_method.
                then_run (process_post_data bi http_method args endpoints) (\<lambda>post_data.
                then_run (authenticate http self (a_user args) (a_verbose args)) (\<lambda>token.
                if truthy token
                then make_request bi http self token endpoint http_method (a_verbose args)
                       post_data
                else ([], Inr ()))))))"

section \<open>A sample server and command line\<close>

text \<open>
  Concrete inputs on which the definitions above are run: a discovery document with a
  volume endpoint (one required property of type number), a metadata path, a path outside
  the API prefix, a queue endpoint (two required properties) and a path whose operations
  object is empty; the replies of a server;
  and the built-ins on the texts that occur.
\<close>

definition sample_schema :: json where
  "sample_schema =
     JObj [(''type'', JStr ''object''),
           (''required'', JArr [JStr ''volume'']),
           (''properties'', JObj [(''volume'', JObj [(''type'', JStr ''number'')])])]"

definition queue_schema :: json where
  "queue_schema =
     JObj [(''type'', JStr ''object''),
           (''required'', JArr [JStr ''videoId'', JStr ''insertPosition''])]"

definition sample_doc :: json where
  "sample_doc =
     JObj [(''paths'', JObj
       [(''/api/v1/volume'', JObj [(''post'', JObj [(''requestBody'', JObj
           [(''content'', JObj [(''application/json'', JObj [(''schema'', sample_schema)])])])])]),
        (''/api/v1/song-info'', JObj [(''get'', JObj [])]),
        (''/auth/{id}'', JObj [(''post'', JObj [])]),
        (''/api/v1/queue'', JObj [(''post'', JObj [(''requestBody'', JObj
           [(''content'', JObj [(''application/json'', JObj [(''schema'', queue_schema)])])])])]),
        (''/api/v1/shuffle'', JObj [])])]"

definition sample_descriptor :: descriptor where
  "sample_descriptor =
     \<lparr>description = JStr ''volume'', data = JStr ''no description'', schema = sample_schema\<rparr>"

definition queue_descriptor :: descriptor where
  "queue_descriptor =
     \<lparr>description = JStr ''queue'', data = JStr ''no description'', schema = queue_schema\<rparr>"

definition sample_catalog :: catalog where
  "sample_catalog =
     [(''volume'', [(''POST'', sample_descriptor)]),
      (''queue'', [(''POST'', queue_descriptor)]),
      (''shuffle'', [])]"

definition sample_doc_text :: string where
  "sample_doc_text =
     ''{\"paths\": {\"/api/v1/volume\": {\"post\": {\"requestBody\": {\"content\": '' @
     ''{\"application/json\": {\"schema\": {\"type\": \"object\", '' @
     ''\"required\": [\"volume\"], \"properties\": {\"volume\": {\"type\": \"number\"}}}}}}}}, '' @
     ''\"/api/v1/song-info\": {\"get\": {}}, \"/auth/{id}\": {\"post\": {}}, '' @
     ''\"/api/v1/queue\": {\"post\": {\"requestBody\": {\"content\": '' @
     ''{\"application/json\": {\"schema\": {\"type\": \"object\", '' @
     ''\"required\": [\"videoId\", \"insertPosition\"]}}}}}}, \"/api/v1/shuffle\": {}}}''"

definition doc_ok :: response where
  "doc_ok = \<lparr>status_code = 200, reason = ''OK'', resp_text = sample_doc_text,
             resp_json = Inr sample_doc\<rparr>"

definition doc_missing :: response where
  "doc_missing =
     \<lparr>status_code = 404, reason = ''Not Found'', resp_text = [], resp_json = Inl JSONDecodeError\<rparr>"

definition auth_ok :: response where
  "auth_ok =
     \<lparr>status_code = 200, reason = ''OK'', resp_text = ''{\"accessToken\": \"secret\"}'',
      resp_json = Inr (JObj [(''accessToken'', JStr ''secret'')])\<rparr>"

definition auth_denied :: response where
  "auth_denied =
     \<lparr>status_code = 401, reason = ''Unauthorized'', resp_text = [], resp_json = Inl JSONDecodeError\<rparr>"

definition no_content :: response where
  "no_content =
     \<lparr>status_code = 204, reason = ''No Content'', resp_text = [], resp_json = Inl JSONDecodeError\<rparr>"

definition queue_reply :: response where
  "queue_reply =
     \<lparr>status_code = 200, reason = ''OK'', resp_text = ''[1]'',
      resp_json = Inr (JArr [JInt 1])\<rparr>"

definition text_reply :: response where
  "text_reply =
     \<lparr>status_code = 200, reason = ''OK'', resp_text = '' done '',
      resp_json = Inl JSONDecodeError\<rparr>"

definition object_reply :: response where
  "object_reply =
     \<lparr>status_code = 200, reason = ''OK'', resp_text = ''{\"state\": 1}'',
      resp_json = Inr (JObj [(''state'', JInt 1)])\<rparr>"

text \<open>
  The server answers the discovery GET, the authentication POST and the request that
  carries the token with the three given replies.
\<close>

definition sample_server :: "response \<Rightarrow> response \<Rightarrow> response \<Rightarrow> http" where
  "sample_server doc_reply auth_reply reply req =
     Some (if bearer req \<noteq> None then reply
           else if meth req = ''GET'' then doc_reply else auth_reply)"

text \<open>
  The built-ins on the sample texts, which are ASCII: there \<^verbatim>\<open>strip()\<close> removes the
  characters 9 to 13 and 28 to 32 from both ends and \<^verbatim>\<open>upper()\<close> maps \<^verbatim>\<open>a\<close> to \<^verbatim>\<open>z\<close>.
  \<^verbatim>\<open>json.loads\<close> and \<^verbatim>\<open>float\<close> are given by their values on the texts that occur; the
  other sample texts are no JSON.
\<close>

definition ascii_space :: "char \<Rightarrow> bool" where
  "ascii_space c =
     (let n = (of_char c :: nat) in (9 \<le> n \<and> n \<le> 13) \<or> (28 \<le> n \<and> n \<le> 32))"

definition sample_strip :: "string \<Rightarrow> string" where
  "sample_strip s = rev (dropWhile ascii_space (rev (dropWhile ascii_space s)))"

definition ascii_upper :: "char \<Rightarrow> char" where
  "ascii_upper c =
     (case map_of (zip ''abcdefghijklmnopqrstuvwxyz'' ''ABCDEFGHIJKLMNOPQRSTUVWXYZ'') c of
        Some u \<Rightarrow> u
      | None \<Rightarrow> c)"

definition sample_loads :: "string \<Rightarrow> pyerror + json" where
  "sample_loads s =
     (case map_of [(''75'', JInt 75), (''50'', JInt 50),
                   (''{\"volume\": 75}'', JObj [(''volume'', JInt 75)])] s of
        Some v \<Rightarrow> Inr v
      | None \<Rightarrow> Inl JSONDecodeError)"

definition sample_builtins :: builtins where
  "sample_builtins =
     \<lparr>json_loads = sample_loads,
      str_strip = sample_strip,
      str_upper = map ascii_upper,
      float_of_str = map_of [],
      float_of_int = map_of [(75, Finite 75), (50, Finite 50)]\<rparr>"

definition sample_args :: args where
  "sample_args =
     \<lparr>a_server = ''http://localhost:26538/'', a_api = ''/api/v1'',
      a_user = ''youtube-music-control'', a_patch = False, a_delete = False, a_list = False,
      a_verbose = False, a_endpoint = Some ''volume'', a_data = Some ''75''\<rparr>"

definition sample_api :: API where
  "sample_api = \<lparr>server = ''http://localhost:26538'', api = ''/api/v1''\<rparr>"

section \<open>Facts about the helpers\<close>

lemma keys_dict_set: "set (map fst (dict_set d k v)) = insert k (set (map fst d))"
  by (induction d) force+

lemma map_of_dict_set: "map_of (dict_set d k v) = (map_of d)(k \<mapsto> v)"
  by (induction d) (auto simp: fun_eq_iff)


lemmas sample_defs = sample_schema_def queue_schema_def sample_doc_def sample_descriptor_def
  queue_descriptor_def sample_catalog_def
  doc_ok_def doc_missing_def auth_ok_def auth_denied_def no_content_def queue_reply_def
  text_reply_def object_reply_def
  sample_server_def sample_builtins_def sample_loads_def sample_args_def sample_api_def

lemmas string_defs = rstrip_def lstrip_def startswith_def endswith_def sample_strip_def
  ascii_space_def ascii_upper_def endpoint_name_def

lemmas client_defs = API_init_def failed_lines_def auth_request_def authenticate_def
  method_entry_def doc_request_def fetch_api_doc_def request_url_def make_request_def
  lookup_endpoint_def determine_http_method_def coerce_number_def wrap_required_def
  load_data_def endpoint_str_def process_post_data_def main_def and_then_def then_run_def
  ok_def Let_def

lemma and_then_Inr_iff:
  "and_then m f = Inr y \<longleftrightarrow> (\<exists>x. m = Inr x \<and> f x = Inr y)"
  by (cases m) (simp_all add: and_then_def)

section \<open>HTTP method resolution\<close>

text \<open>
  Claim C2. \<^verbatim>\<open>determine_http_method\<close> follows the priority order, first match winning:
  \<^verbatim>\<open>--delete\<close> gives DELETE; else \<^verbatim>\<open>--patch\<close> gives PATCH; else a data argument gives POST,
  whatever the catalog holds; else an endpoint that is no key of the catalog gives GET;
  else GET when the endpoint's method map has GET; else the first method of that map in
  iteration order. (A method map with no method at all has no first method; that case is
  the subject of claim C9.)
\<close>

theorem determine_http_method_priority:
  "(a_delete args \<longrightarrow> determine_http_method args endpoints = Inr ''DELETE'') \<and>
   (\<not> a_delete args \<and> a_patch args \<longrightarrow> determine_http_method args endpoints = Inr ''PATCH'') \<and>
   (\<not> a_delete args \<and> \<not> a_patch args \<and> a_data args \<noteq> None \<longrightarrow>
      determine_http_method args endpoints = Inr ''POST'') \<and>
   (\<not> a_delete args \<and> \<not> a_patch args \<and> a_data args = None \<and>
    (\<forall>e. a_endpoint args = Some e \<longrightarrow> e \<notin> set (map fst endpoints)) \<longrightarrow>
      determine_http_method args endpoints = Inr ''GET'') \<and>
   (\<not> a_delete args \<and> \<not> a_patch args \<and> a_data args = None \<and>
    a_endpoint args = Some e \<and> map_of endpoints e = Some ms \<and> ''GET'' \<in> set (map fst ms) \<longrightarrow>
      determine_http_method args endpoints = Inr ''GET'') \<and>
   (\<not> a_delete args \<and> \<not> a_patch args \<and> a_data args = None \<and>
    a_endpoint args = Some e \<and> map_of endpoints e = Some ((m, d) # rest) \<and>
    ''GET'' \<notin> set (map fst ((m, d) # rest)) \<longrightarrow>
      determine_http_method args endpoints = Inr m)"
proof (intro conjI impI)
  assume "\<not> a_delete args \<and> \<not> a_patch args \<and> a_data args = None \<and>
          (\<forall>e. a_endpoint args = Some e \<longrightarrow> e \<notin> set (map fst endpoints))"
  moreover from this have "lookup_endpoint endpoints (a_endpoint args) = None"
    by (cases "a_endpoint args") (auto simp: lookup_endpoint_def map_of_eq_None_iff)
  ultimately show "determine_http_method args endpoints = Inr ''GET''"
    by (simp add: determine_http_method_def)
next
  assume "\<not> a_delete args \<and> \<not> a_patch args \<and> a_data args = None \<and>
          a_endpoint args = Some e \<and> map_of endpoints e = Some ms \<and>
          ''GET'' \<in> set (map fst ms)"
  then show "determine_http_method args endpoints = Inr ''GET''"
    by (simp add: determine_http_method_def lookup_endpoint_def)
next
  assume "\<not> a_delete args \<and> \<not> a_patch args \<and> a_data args = None \<and>
          a_endpoint args = Some e \<and> map_of endpoints e = Some ((m, d) # rest) \<and>
          ''GET'' \<notin> set (map fst ((m, d) # rest))"
  then show "determine_http_method args endpoints = Inr m"
    by (simp add: determine_http_method_def lookup_endpoint_def)
qed (simp_all add: determine_http_method_def)

theorem determine_http_method_priority_witness:
  "determine_http_method (sample_args\<lparr>a_delete := True, a_patch := True\<rparr>) sample_catalog =
     Inr ''DELETE'' \<and>
   determine_http_method (sample_args\<lparr>a_patch := True\<rparr>) sample_catalog = Inr ''PATCH'' \<and>
   determine_http_method sample_args [] = Inr ''POST'' \<and>
   determine_http_method (sample_args\<lparr>a_data := None, a_endpoint := Some ''play''\<rparr>)
     sample_catalog = Inr ''GET'' \<and>
   determine_http_method (sample_args\<lparr>a_data := None, a_endpoint := Some ''like''\<rparr>)
     [(''like'', [(''POST'', sample_descriptor), (''GET'', sample_descriptor)])] = Inr ''GET'' \<and>
   determine_http_method (sample_args\<lparr>a_data := None\<rparr>) sample_catalog = Inr ''POST''"
proof -
  note rules = determine_http_method_priority
    [where e = "''like''" and m = "''POST''" and d = sample_descriptor and
       ms = "[(''POST'', sample_descriptor), (''GET'', sample_descriptor)]" and rest = "[]"]
  have c1: "determine_http_method (sample_args\<lparr>a_delete := True, a_patch := True\<rparr>)
              sample_catalog = Inr ''DELETE''"
    using rules [of "sample_args\<lparr>a_delete := True, a_patch := True\<rparr>" sample_catalog]
    by (simp add: sample_args_def)
  have c2: "determine_http_method (sample_args\<lparr>a_patch := True\<rparr>) sample_catalog = Inr ''PATCH''"
    using rules [of "sample_args\<lparr>a_patch := True\<rparr>" sample_catalog]
    by (simp add: sample_args_def)
  have c3: "determine_http_method sample_args [] = Inr ''POST''"
    using rules [of sample_args "[]"] by (simp add: sample_args_def)
  have c4: "determine_http_method (sample_args\<lparr>a_data := None, a_endpoint := Some ''play''\<rparr>)
              sample_catalog = Inr ''GET''"
    using rules [of "sample_args\<lparr>a_data := None, a_endpoint := Some ''play''\<rparr>" sample_catalog]
    by (simp add: sample_args_def sample_catalog_def)
  have c5: "determine_http_method (sample_args\<lparr>a_data := None, a_endpoint := Some ''like''\<rparr>)
              [(''like'', [(''POST'', sample_descriptor), (''GET'', sample_descriptor)])] =
              Inr ''GET''"
    using rules [of "sample_args\<lparr>a_data := None, a_endpoint := Some ''like''\<rparr>"
                    "[(''like'', [(''POST'', sample_descriptor), (''GET'', sample_descriptor)])]"]
    by (simp add: sample_args_def)
  have c6: "determine_http_method (sample_args\<lparr>a_data := None\<rparr>) sample_catalog = Inr ''POST''"
    using determine_http_method_priority
      [where args = "sample_args\<lparr>a_data := None\<rparr>" and endpoints = sample_catalog and
         e = "''volume''" and m = "''POST''" and d = sample_descriptor and rest = "[]" and
         ms = "[]"]
    by (simp add: sample_args_def sample_catalog_def sample_descriptor_def)
  from c1 c2 c3 c4 c5 c6 show ?thesis by blast
qed



text \<open>
  Claim C9. Method resolution is claimed never to fail. It does fail: a path whose
  operations object is empty leaves an endpoint with an empty method map in the catalog
  (here \<^verbatim>\<open>shuffle\<close>), and for that endpoint \<^verbatim>\<open>list(methods.keys())[0]\<close> raises
  \<^verbatim>\<open>IndexError\<close>, which ends the run right after the discovery GET.
\<close>

theorem empty_method_map_raises:
  "fetch_api_doc sample_builtins (sample_server doc_ok auth_ok no_content) sample_api False False =
     ([Http (doc_request sample_api)], Inr sample_catalog) \<and>
   map_of sample_catalog ''shuffle'' = Some [] \<and>
   determine_http_method (sample_args\<lparr>a_endpoint := Some ''shuffle'', a_data := None\<rparr>)
     sample_catalog = Inl IndexError \<and>
   main sample_builtins (sample_server doc_ok auth_ok no_content)
     (sample_args\<lparr>a_endpoint := Some ''shuffle'', a_data := None\<rparr>) =
     ([Http (doc_request sample_api)], Inl IndexError)"
  by (simp add: sample_defs client_defs string_defs)

section \<open>Request body construction\<close>

text \<open>
  Claim C4. When the method is POST or PATCH and the data argument parses as JSON to an
  object, \<^verbatim>\<open>process_post_data\<close> returns that object as it is and prints nothing, for
  every endpoint and every catalog.
\<close>

theorem process_post_data_object_verbatim:
  assumes "http_method = ''POST'' \<or> http_method = ''PATCH''"
    and "a_data args = Some raw"
    and "json_loads bi raw = Inr (JObj obj)"
  shows "process_post_data bi http_method args endpoints = ([], Inr (Val (JObj obj)))"
  using assms by (auto simp: process_post_data_def load_data_def then_run_def)

theorem process_post_data_object_verbatim_witness:
  "a_data (sample_args\<lparr>a_data := Some ''{\"volume\": 75}''\<rparr>) = Some ''{\"volume\": 75}'' \<and>
   json_loads sample_builtins ''{\"volume\": 75}'' = Inr (JObj [(''volume'', JInt 75)]) \<and>
   process_post_data sample_builtins ''PATCH''
     (sample_args\<lparr>a_data := Some ''{\"volume\": 75}''\<rparr>) sample_catalog =
     ([], Inr (Val (JObj [(''volume'', JInt 75)])))"
  using process_post_data_object_verbatim
    [of "''PATCH''" "sample_args\<lparr>a_data := Some ''{\"volume\": 75}''\<rparr>" "''{\"volume\": 75}''"
        sample_builtins "[(''volume'', JInt 75)]" sample_catalog]
  by (simp add: sample_args_def sample_builtins_def sample_loads_def)

lemma py_int_integer: "r \<in> \<int> \<Longrightarrow> py_int (Finite r) = Inr \<lfloor>r\<rfloor>"
  by (auto elim!: Ints_cases)

lemma is_integer_iff: "is_integer (Finite r) \<longleftrightarrow> r \<in> \<int>"
  by (metis Ints_of_int is_integer.simps(1) of_int_floor)

lemma coerce_number_cases:
  "coerce_number bi loaded =
     (case py_float bi loaded of
        None \<Rightarrow> loaded
      | Some (Finite r) \<Rightarrow> if r \<in> \<int> then JInt \<lfloor>r\<rfloor> else JFloat (Finite r)
      | Some v \<Rightarrow> JFloat v)"
proof (cases "py_float bi loaded")
  case None
  then show ?thesis by (simp add: coerce_number_def)
next
  case (Some v)
  show ?thesis
  proof (cases v)
    case (Finite r)
    show ?thesis
    proof (cases "r \<in> \<int>")
      case True
      with Some Finite show ?thesis
        by (simp add: coerce_number_def is_integer_iff py_int_integer
            del: is_integer.simps py_int.simps)
    next
      case False
      with Some Finite show ?thesis
        by (simp add: coerce_number_def is_integer_iff del: is_integer.simps py_int.simps)
    qed
  qed (use Some in \<open>simp_all add: coerce_number_def\<close>)
qed

text \<open>
  An exception of \<^verbatim>\<open>json.loads\<close> other than \<^verbatim>\<open>JSONDecodeError\<close> is not caught: it ends
  \<^verbatim>\<open>process_post_data\<close>, and with it the run.
\<close>

lemma process_post_data_loads_raises:
  assumes "http_method = ''POST'' \<or> http_method = ''PATCH''"
    and "a_data args = Some raw"
    and "json_loads bi raw = Inl e" and "e \<noteq> JSONDecodeError"
  shows "process_post_data bi http_method args endpoints = ([], Inl e)"
  using assms by (auto simp: process_post_data_def load_data_def then_run_def)

lemma process_post_data_wrap:
  assumes "http_method = ''POST'' \<or> http_method = ''PATCH''"
    and data: "a_data args = Some raw"
    and loaded: "load_data bi raw = Inr loaded"
    and nonobj: "\<not> is_dict loaded"
    and entry: "a_endpoint args = Some endpoint" "map_of endpoints endpoint = Some ms"
      "map_of ms http_method = Some d"
    and sch: "schema d = JObj sch" "map_of sch ''type'' = Some (JStr ''object'')"
      "map_of sch ''required'' = Some (JArr [JStr key])"
      "map_of sch ''properties'' = Some (JObj props)"
      "map_of props key = Some (JObj decl)" "map_of decl ''type'' = Some (JStr ''number'')"
  shows "process_post_data bi http_method args endpoints =
           ([], Inr (Val (JObj [(key, coerce_number bi loaded)])))"
  using assms
  by (auto simp: process_post_data_def lookup_endpoint_def then_run_def and_then_def
      wrap_required_def Let_def)

text \<open>
  Claim C3. For a POST or PATCH body built from a data argument that is no JSON object
  (the value \<^verbatim>\<open>json.loads\<close> returns, or the text itself when it raises
  \<^verbatim>\<open>JSONDecodeError\<close>), under an object schema whose one required property \<open>key\<close> is
  declared of type \<^verbatim>\<open>number\<close>: when \<^verbatim>\<open>float\<close> succeeds with a number without fractional
  part, the body is \<^verbatim>\<open>{key: n}\<close> for the integer \<open>n\<close> of that value; when it succeeds
  with any other float, the body holds that float; when it fails, the body holds the
  value unchanged, and no exception leaves the function.
\<close>

theorem process_post_data_number_coercion:
  assumes "http_method = ''POST'' \<or> http_method = ''PATCH''"
    and "a_data args = Some raw"
    and "json_loads bi raw = Inr loaded \<or>
         json_loads bi raw = Inl JSONDecodeError \<and> loaded = JStr raw"
    and "\<not> is_dict loaded"
    and "a_endpoint args = Some endpoint" "map_of endpoints endpoint = Some ms"
      "map_of ms http_method = Some d"
    and "schema d = JObj sch" "map_of sch ''type'' = Some (JStr ''object'')"
      "map_of sch ''required'' = Some (JArr [JStr key])"
      "map_of sch ''properties'' = Some (JObj props)"
      "map_of props key = Some (JObj decl)" "map_of decl ''type'' = Some (JStr ''number'')"
  shows
    "(\<forall>r. py_float bi loaded = Some (Finite r) \<and> r \<in> \<int> \<longrightarrow>
        process_post_data bi http_method args endpoints =
          ([], Inr (Val (JObj [(key, JInt \<lfloor>r\<rfloor>)]))) \<and> rat_of_int \<lfloor>r\<rfloor> = r) \<and>
     (\<forall>r. py_float bi loaded = Some (Finite r) \<and> r \<notin> \<int> \<longrightarrow>
        process_post_data bi http_method args endpoints =
          ([], Inr (Val (JObj [(key, JFloat (Finite r))])))) \<and>
     (\<forall>v. py_float bi loaded = Some v \<and> v \<in> {PosInf, NegInf, NaN} \<longrightarrow>
        process_post_data bi http_method args endpoints =
          ([], Inr (Val (JObj [(key, JFloat v)])))) \<and>
     (py_float bi loaded = None \<longrightarrow>
        process_post_data bi http_method args endpoints =
          ([], Inr (Val (JObj [(key, loaded)]))))"
proof -
  have "load_data bi raw = Inr loaded"
    using assms(3) by (auto simp: load_data_def)
  then have wrap: "process_post_data bi http_method args endpoints =
                ([], Inr (Val (JObj [(key, coerce_number bi loaded)])))"
    using assms
      process_post_data_wrap
        [of http_method args raw bi loaded endpoint endpoints ms d sch key props decl]
    by simp
  show ?thesis
    unfolding wrap coerce_number_cases by (auto elim: Ints_cases)
qed

theorem process_post_data_number_coercion_witness:
  "json_loads sample_builtins ''75'' = Inr (JInt 75) \<and>
   process_post_data sample_builtins ''POST'' sample_args sample_catalog =
     ([], Inr (Val (JObj [(''volume'', JInt 75)]))) \<and>
   json_loads sample_builtins ''loud'' = Inl JSONDecodeError \<and>
   process_post_data sample_builtins ''POST'' (sample_args\<lparr>a_data := Some ''loud''\<rparr>)
     sample_catalog = ([], Inr (Val (JObj [(''volume'', JStr ''loud'')])))"
proof -
  note inst = process_post_data_number_coercion
    [where http_method = "''POST''" and bi = sample_builtins and endpoints = sample_catalog and
       endpoint = "''volume''" and ms = "[(''POST'', sample_descriptor)]" and
       d = sample_descriptor and key = "''volume''" and
       sch = "[(''type'', JStr ''object''), (''required'', JArr [JStr ''volume'']),
               (''properties'', JObj [(''volume'', JObj [(''type'', JStr ''number'')])])]" and
       props = "[(''volume'', JObj [(''type'', JStr ''number'')])]" and
       decl = "[(''type'', JStr ''number'')]"]
  have loads: "json_loads sample_builtins ''75'' = Inr (JInt 75)"
    "json_loads sample_builtins ''loud'' = Inl JSONDecodeError"
    by (simp_all add: sample_builtins_def sample_loads_def)
  have parsed:
    "\<forall>r. py_float sample_builtins (JInt 75) = Some (Finite r) \<and> r \<in> \<int> \<longrightarrow>
       process_post_data sample_builtins ''POST'' sample_args sample_catalog =
         ([], Inr (Val (JObj [(''volume'', JInt \<lfloor>r\<rfloor>)]))) \<and> rat_of_int \<lfloor>r\<rfloor> = r"
    using inst [where args = sample_args and raw = "''75''" and loaded = "JInt 75"]
    by (simp add: sample_defs)
  have unparsed:
    "py_float sample_builtins (JStr ''loud'') = None \<longrightarrow>
       process_post_data sample_builtins ''POST'' (sample_args\<lparr>a_data := Some ''loud''\<rparr>)
         sample_catalog = ([], Inr (Val (JObj [(''volume'', JStr ''loud'')])))"
    using inst [where args = "sample_args\<lparr>a_data := Some ''loud''\<rparr>" and raw = "''loud''" and
                  loaded = "JStr ''loud''"]
    by (simp add: sample_defs)
  have "py_float sample_builtins (JInt 75) = Some (Finite 75)"
       "py_float sample_builtins (JStr ''loud'') = None"
    by (simp_all add: sample_builtins_def)
  with parsed unparsed loads show ?thesis by force
qed

text \<open>
  Claim C1. The claim says that after the message about a missing schema, or about an
  object schema without exactly one required property, no request is sent. The code
  prints the message, \<^verbatim>\<open>process_post_data\<close> returns \<^verbatim>\<open>None\<close>, and \<^verbatim>\<open>main\<close> goes on: it
  authenticates and sends the POST without a body.
\<close>

theorem unshaped_payload_is_dispatched:
  "main sample_builtins (sample_server doc_ok auth_ok no_content)
     (sample_args\<lparr>a_endpoint := Some ''seek'', a_data := Some ''50''\<rparr>) =
     ([Http (doc_request sample_api),
       Print [Lit ''No POST data schema for seek''],
       Http (auth_request sample_api ''youtube-music-control''),
       Http \<lparr>meth = ''POST'', url = ''http://localhost:26538/api/v1/seek'',
             bearer = Some (JStr ''secret''), payload = Val JNull\<rparr>],
      Inr ()) \<and>
   main sample_builtins (sample_server doc_ok auth_ok no_content)
     (sample_args\<lparr>a_endpoint := Some ''queue'', a_data := Some ''50''\<rparr>) =
     ([Http (doc_request sample_api),
       Print [Lit ''queue POST requires an object''],
       Http (auth_request sample_api ''youtube-music-control''),
       Http \<lparr>meth = ''POST'', url = ''http://localhost:26538/api/v1/queue'',
             bearer = Some (JStr ''secret''), payload = Val JNull\<rparr>],
      Inr ())"
  by (simp add: sample_defs client_defs string_defs)

section \<open>The catalog built from the discovery document\<close>

lemma add_methods_keys:
  "add_methods bi endpoint ms endpoints = Inr endpoints' \<Longrightarrow>
   endpoint \<in> set (map fst endpoints) \<Longrightarrow>
   set (map fst endpoints') = set (map fst endpoints)"
proof (induction ms arbitrary: endpoints)
  case Nil
  then show ?case by simp
next
  case (Cons md rest)
  obtain name details where md: "md = (name, details)" by (cases md)
  from Cons.prems(1) md obtain m d ms0 where
    entry: "method_entry bi endpoint name details = Inr (m, d)" and
    look: "map_of endpoints endpoint = Some ms0" and
    rec: "add_methods bi endpoint rest (dict_set endpoints endpoint (dict_set ms0 m d)) =
          Inr endpoints'"
    by (auto split: sum.splits option.splits)
  have keys: "set (map fst (dict_set endpoints endpoint (dict_set ms0 m d))) =
              set (map fst endpoints)"
    using Cons.prems(2) by (simp only: keys_dict_set insert_absorb)
  from Cons.IH[OF rec] keys Cons.prems(2) show ?case by simp
qed

lemma process_paths_keys:
  "process_paths bi api' paths endpoints = Inr endpoints' \<Longrightarrow>
   set (map fst endpoints') =
     set (map fst endpoints) \<union>
     endpoint_name api' ` {p \<in> set (map fst paths). startswith p api' \<and> \<not> endswith p ''-info''}"
proof (induction paths arbitrary: endpoints)
  case Nil
  then show ?case by simp
next
  case (Cons pm rest)
  obtain path methods where pm: "pm = (path, methods)" by (cases pm)
  show ?case
  proof (cases "startswith path api' \<and> \<not> endswith path ''-info''")
    case False
    with Cons.prems pm have "process_paths bi api' rest endpoints = Inr endpoints'"
      by (auto split: if_splits)
    from Cons.IH[OF this] False pm show ?thesis by auto
  next
    case True
    define endpoint where "endpoint = endpoint_name api' path"
    define endpoints1 where "endpoints1 =
      (if endpoint \<notin> set (map fst endpoints) then dict_set endpoints endpoint [] else endpoints)"
    from Cons.prems pm True obtain ms endpoints2 where
      items: "py_items methods = Inr ms" and
      add: "add_methods bi endpoint ms endpoints1 = Inr endpoints2" and
      rec: "process_paths bi api' rest endpoints2 = Inr endpoints'"
      by (auto simp: Let_def endpoint_def endpoints1_def split: sum.splits if_splits)
    have k1: "set (map fst endpoints1) = insert endpoint (set (map fst endpoints))"
      unfolding endpoints1_def by (auto simp only: keys_dict_set split: if_splits)
    then have "endpoint \<in> set (map fst endpoints1)" by simp
    from add_methods_keys[OF add this] k1
    have k2: "set (map fst endpoints2) = insert endpoint (set (map fst endpoints))" by simp
    from Cons.IH[OF rec] k2 True pm show ?thesis
      by (auto simp: endpoint_def)
  qed
qed

lemma endswith_iff: "endswith s p \<longleftrightarrow> (\<exists>q. s = q @ p)"
proof
  assume "endswith s p"
  then have "s = take (length s - length p) s @ p"
    by (metis append_take_drop_id endswith_def)
  then show "\<exists>q. s = q @ p" ..
next
  assume "\<exists>q. s = q @ p"
  then show "endswith s p" by (auto simp: endswith_def)
qed

lemma endswith_endpoint_name:
  assumes "endswith (endpoint_name api' path) x"
  shows "endswith path x"
proof -
  from assms obtain q where q: "lstrip CHR ''/'' (drop (length api') path) = q @ x"
    by (auto simp: endswith_iff endpoint_name_def)
  have "drop (length api') path =
        takeWhile (\<lambda>c. c = CHR ''/'') (drop (length api') path) @ q @ x"
    using q by (metis lstrip_def takeWhile_dropWhile_id)
  then have "path = (take (length api') path @
        takeWhile (\<lambda>c. c = CHR ''/'') (drop (length api') path) @ q) @ x"
    by (metis append_assoc append_take_drop_id)
  then show ?thesis unfolding endswith_iff ..
qed

lemma fetch_sample:
  "fetch_api_doc sample_builtins (sample_server doc_ok auth_ok no_content) sample_api False False =
     ([Http (doc_request sample_api)], Inr sample_catalog)"
  by (simp add: sample_defs client_defs string_defs)

text \<open>
  Claim C5. Every endpoint of the catalog that \<^verbatim>\<open>fetch_api_doc\<close> returns comes from a
  path of the document that starts with the API prefix and does not end in \<^verbatim>\<open>-info\<close>;
  its name is that path without the prefix and without leading slashes; and no endpoint
  name ends in \<^verbatim>\<open>-info\<close>.
\<close>

theorem fetch_api_doc_catalog_endpoints:
  assumes "fetch_api_doc bi http self verbose print_data = (es, Inr endpoints)"
    and "e \<in> set (map fst endpoints)"
  shows "\<not> endswith e ''-info'' \<and>
         (\<exists>r api_doc paths path.
            http (doc_request self) = Some r \<and> resp_json r = Inr api_doc \<and>
            py_get api_doc ''paths'' (JObj []) = Inr (JObj paths) \<and>
            path \<in> set (map fst paths) \<and>
            startswith path (api self) \<and> \<not> endswith path ''-info'' \<and>
            e = lstrip CHR ''/'' (drop (length (api self)) path))"
proof -
  from assms obtain r where r: "http (doc_request self) = Some r"
    by (cases "http (doc_request self)") (auto simp: fetch_api_doc_def Let_def)
  with assms have ok: "status_code r = 200"
    by (auto simp: fetch_api_doc_def Let_def split: if_splits)
  with assms r obtain api_doc where doc: "resp_json r = Inr api_doc"
    by (cases "resp_json r") (auto simp: fetch_api_doc_def Let_def)
  with assms r ok obtain paths ps where
    paths: "py_get api_doc ''paths'' (JObj []) = Inr paths" and
    items: "py_items paths = Inr ps" and
    run: "process_paths bi (api self) ps [] = Inr endpoints"
    by (auto simp: fetch_api_doc_def Let_def and_then_Inr_iff)
  from items have obj: "paths = JObj ps"
    by (cases paths) simp_all
  from process_paths_keys [OF run] assms(2) obtain path where
    path: "path \<in> set (map fst ps)" "startswith path (api self)" "\<not> endswith path ''-info''"
      "e = endpoint_name (api self) path"
    by auto
  from path(3,4) have "\<not> endswith e ''-info''"
    using endswith_endpoint_name by blast
  with r doc paths obj path show ?thesis
    unfolding endpoint_name_def by blast
qed

theorem fetch_api_doc_catalog_endpoints_witness:
  "fetch_api_doc sample_builtins (sample_server doc_ok auth_ok no_content) sample_api False False =
     ([Http (doc_request sample_api)], Inr sample_catalog) \<and>
   map fst sample_catalog = [''volume'', ''queue'', ''shuffle''] \<and>
   \<not> endswith ''volume'' ''-info'' \<and>
   (\<exists>r api_doc paths path.
      sample_server doc_ok auth_ok no_content (doc_request sample_api) = Some r \<and>
      resp_json r = Inr api_doc \<and>
      py_get api_doc ''paths'' (JObj []) = Inr (JObj paths) \<and>
      path \<in> set (map fst paths) \<and>
      startswith path (api sample_api) \<and> \<not> endswith path ''-info'' \<and>
      ''volume'' = lstrip CHR ''/'' (drop (length (api sample_api)) path))"
proof -
  have "''volume'' \<in> set (map fst sample_catalog)"
    by (simp add: sample_catalog_def)
  from fetch_api_doc_catalog_endpoints [OF fetch_sample this] fetch_sample
  show ?thesis by (simp add: sample_catalog_def)
qed


section \<open>The run as a whole\<close>

lemma sent_append: "sent (es @ es') = sent es @ sent es'"
  by (induction es rule: sent.induct) simp_all

lemma sent_prints: "sent (map (\<lambda>x. Print (f x)) xs) = []"
  by (induction xs) simp_all

lemma fst_then_run:
  "fst (then_run m f) = (case snd m of Inl e \<Rightarrow> fst m | Inr x \<Rightarrow> fst m @ fst (f x))"
  by (cases m) (auto simp: then_run_def split: sum.splits prod.splits)

lemma sent_fetch_api_doc:
  "sent (fst (fetch_api_doc bi http self verbose print_data)) = [doc_request self]"
  by (auto simp: fetch_api_doc_def failed_lines_def Let_def split: option.splits sum.splits)

lemma sent_display_endpoints: "sent (display_endpoints endpoints) = []"
proof -
  have "sent (map (\<lambda>(endpoint, ms). Print (Lit (''  '' @ endpoint) # display_methods ms))
          endpoints) = []"
    using sent_prints [of "\<lambda>(endpoint, ms). Lit (''  '' @ endpoint) # display_methods ms" endpoints]
    by (simp add: case_prod_unfold)
  then show ?thesis by (simp add: display_endpoints_def)
qed

lemma sent_process_post_data:
  "sent (fst (process_post_data bi http_method args endpoints)) = []"
  by (auto simp: process_post_data_def Let_def fst_then_run split: option.splits sum.splits)

lemma authenticate_failure:
  assumes "http (auth_request self username) = Some r" and "status_code r \<noteq> 200"
  shows "authenticate http self username verbose =
           (Http (auth_request self username) #
              failed_lines r (server self @ ''/auth/'' @ username), Inr JNull)"
  using assms by (simp add: authenticate_def auth_request_def)

lemma sent_authenticate:
  "sent (fst (authenticate http self username verbose)) = [auth_request self username]"
  by (auto simp: authenticate_def failed_lines_def Let_def split: option.splits)

text \<open>A body that cannot be encoded ends the run before any call goes out.\<close>

lemma make_request_not_encodable:
  assumes "post_data \<noteq> Val JNull" and "\<not> encodable post_data"
  shows "sent (fst (make_request bi http self token endpoint http_method verbose post_data)) = []"
    and "snd (make_request bi http self token endpoint http_method verbose post_data) =
           Inl InvalidJSONError"
  using assms by (auto simp: make_request_def Let_def)

text \<open>\<^verbatim>\<open>main\<close> once an endpoint is given and no listing is asked for.\<close>

lemma main_endpoint:
  assumes "\<not> (a_delete args \<and> a_patch args)" "\<not> a_list args" "a_endpoint args = Some endpoint"
    "endpoint \<noteq> []"
  shows "main bi http args =
     (let self = API_init (a_server args) (a_api args) in
      then_run (fetch_api_doc bi http self (a_verbose args) False) (\<lambda>endpoints.
      then_run ([], determine_http_method args endpoints) (\<lambda>http_method.
      then_run (process_post_data bi http_method args endpoints) (\<lambda>post_data.
      then_run (authenticate http self (a_user args) (a_verbose args)) (\<lambda>token.
      if truthy token
      then make_request bi http self token endpoint http_method (a_verbose args) post_data
      else ([], Inr ()))))))"
  using assms by (auto simp: main_def Let_def)

lemma sent_main_auth_failure:
  assumes "http (auth_request (API_init (a_server args) (a_api args)) (a_user args)) = Some r"
    and "status_code r \<noteq> 200"
  shows "sent (fst (main bi http args)) \<in>
           {[], [doc_request (API_init (a_server args) (a_api args))],
            [doc_request (API_init (a_server args) (a_api args)),
             auth_request (API_init (a_server args) (a_api args)) (a_user args)]}"
proof -
  define self where "self = API_init (a_server args) (a_api args)"
  have auth: "authenticate http self (a_user args) (a_verbose args) =
          (Http (auth_request self (a_user args)) #
              failed_lines r (server self @ ''/auth/'' @ a_user args), Inr JNull)"
    using assms authenticate_failure unfolding self_def by blast
  show ?thesis
    unfolding main_def self_def [symmetric] Let_def
    by (auto simp: fst_then_run sent_append sent_fetch_api_doc sent_display_endpoints
        sent_process_post_data auth failed_lines_def
        split: option.splits sum.splits)
qed

lemma api_init_sample: "API_init (a_server sample_args) (a_api sample_args) = sample_api"
  by (simp add: sample_defs API_init_def rstrip_def)

text \<open>
  Claim C6. When the authentication POST is answered with a status other than 200,
  \<^verbatim>\<open>authenticate\<close> prints the failure line with the status and the reason, then the
  auth URL, and returns \<^verbatim>\<open>None\<close>; the only HTTP calls of the run are the discovery GET and
  the authentication POST, so the request to the endpoint is never sent; and a run that
  reaches the authentication ends normally right after the two failure lines.
\<close>

theorem authenticate_failure_halts:
  assumes "self = API_init (a_server args) (a_api args)"
    and "http (auth_request self (a_user args)) = Some r"
    and "status_code r \<noteq> 200"
  shows
    "authenticate http self (a_user args) verbose =
       ([Http (auth_request self (a_user args)),
         Print [Lit ''Request failed: '', Num (status_code r), Lit '' '', Lit (reason r)],
         Print [Lit (server self @ ''/auth/'' @ a_user args)]],
        Inr JNull) \<and>
     sent (fst (main bi http args)) \<in>
       {[], [doc_request self], [doc_request self, auth_request self (a_user args)]} \<and>
     (\<forall>endpoint es1 endpoints http_method es2 post_data.
        \<not> (a_delete args \<and> a_patch args) \<and> \<not> a_list args \<and>
        a_endpoint args = Some endpoint \<and> endpoint \<noteq> [] \<and>
        fetch_api_doc bi http self (a_verbose args) False = (es1, Inr endpoints) \<and>
        determine_http_method args endpoints = Inr http_method \<and>
        process_post_data bi http_method args endpoints = (es2, Inr post_data) \<longrightarrow>
        main bi http args =
          (es1 @ es2 @
           [Http (auth_request self (a_user args)),
            Print [Lit ''Request failed: '', Num (status_code r), Lit '' '', Lit (reason r)],
            Print [Lit (server self @ ''/auth/'' @ a_user args)]],
           Inr ()))"
proof (intro conjI allI impI)
  show "authenticate http self (a_user args) verbose =
       ([Http (auth_request self (a_user args)),
         Print [Lit ''Request failed: '', Num (status_code r), Lit '' '', Lit (reason r)],
         Print [Lit (server self @ ''/auth/'' @ a_user args)]],
        Inr JNull)"
    using assms(2,3)
      authenticate_failure [where http = http and self = self and username = "a_user args" and r = r]
    by (simp add: failed_lines_def)
  show "sent (fst (main bi http args)) \<in>
       {[], [doc_request self], [doc_request self, auth_request self (a_user args)]}"
    using sent_main_auth_failure [of http args r bi] assms by simp
next
  fix endpoint es1 endpoints http_method es2 post_data
  assume run: "\<not> (a_delete args \<and> a_patch args) \<and> \<not> a_list args \<and>
        a_endpoint args = Some endpoint \<and> endpoint \<noteq> [] \<and>
        fetch_api_doc bi http self (a_verbose args) False = (es1, Inr endpoints) \<and>
        determine_http_method args endpoints = Inr http_method \<and>
        process_post_data bi http_method args endpoints = (es2, Inr post_data)"
  then have "main bi http args =
     (let self = API_init (a_server args) (a_api args) in
      then_run (fetch_api_doc bi http self (a_verbose args) False) (\<lambda>endpoints.
      then_run ([], determine_http_method args endpoints) (\<lambda>http_method.
      then_run (process_post_data bi http_method args endpoints) (\<lambda>post_data.
      then_run (authenticate http self (a_user args) (a_verbose args)) (\<lambda>token.
      if truthy token
      then make_request bi http self token endpoint http_method (a_verbose args) post_data
      else ([], Inr ()))))))"
    using main_endpoint by blast
  with run assms
    authenticate_failure [where http = http and self = self and username = "a_user args" and
      r = r and verbose = "a_verbose args"]
  show "main bi http args =
          (es1 @ es2 @
           [Http (auth_request self (a_user args)),
            Print [Lit ''Request failed: '', Num (status_code r), Lit '' '', Lit (reason r)],
            Print [Lit (server self @ ''/auth/'' @ a_user args)]],
           Inr ())"
    by (simp add: then_run_def failed_lines_def Let_def)
qed

theorem authenticate_failure_halts_witness:
  "status_code auth_denied = 401 \<and>
   authenticate (sample_server doc_ok auth_denied no_content) sample_api
     ''youtube-music-control'' False =
     ([Http (auth_request sample_api ''youtube-music-control''),
       Print [Lit ''Request failed: '', Num 401, Lit '' '', Lit ''Unauthorized''],
       Print [Lit ''http://localhost:26538/auth/youtube-music-control'']],
      Inr JNull) \<and>
   main sample_builtins (sample_server doc_ok auth_denied no_content) sample_args =
     ([Http (doc_request sample_api),
       Http (auth_request sample_api ''youtube-music-control''),
       Print [Lit ''Request failed: '', Num 401, Lit '' '', Lit ''Unauthorized''],
       Print [Lit ''http://localhost:26538/auth/youtube-music-control'']],
      Inr ())"
proof -
  have reply: "sample_server doc_ok auth_denied no_content
                 (auth_request sample_api (a_user sample_args)) = Some auth_denied"
    by (simp add: sample_server_def auth_request_def)
  have status: "status_code auth_denied \<noteq> 200" "status_code auth_denied = 401"
    by (simp_all add: auth_denied_def)
  note halts = authenticate_failure_halts
    [where self = sample_api and args = sample_args and r = auth_denied and verbose = False and
       http = "sample_server doc_ok auth_denied no_content" and bi = sample_builtins]
  have fetched:
    "fetch_api_doc sample_builtins (sample_server doc_ok auth_denied no_content) sample_api
       (a_verbose sample_args) False = ([Http (doc_request sample_api)], Inr sample_catalog)"
    by (simp add: sample_defs client_defs string_defs)
  have resolved: "determine_http_method sample_args sample_catalog = Inr ''POST''"
    by (simp add: sample_args_def determine_http_method_def)
  have shaped: "process_post_data sample_builtins ''POST'' sample_args sample_catalog =
                  ([], Inr (Val (JObj [(''volume'', JInt 75)])))"
    by (simp add: sample_defs client_defs)
  from halts api_init_sample reply status fetched resolved shaped show ?thesis
    by (simp add: sample_args_def sample_api_def auth_denied_def)
qed






section \<open>The printed result of a request\<close>

text \<open>
  Claim C8, as stated, fails: a JSON array is a structured value, and the claim has it
  pretty-printed with indentation. \<^verbatim>\<open>make_request\<close> tests \<^verbatim>\<open>isinstance(parsed_data, dict)\<close>,
  so the array \<^verbatim>\<open>[1]\<close> of a 200 response is printed as it is, by \<^verbatim>\<open>print(parsed_data)\<close>.
\<close>

theorem make_request_array_printed_as_is:
  "200 \<le> status_code queue_reply \<and> status_code queue_reply < 300 \<and>
   resp_json queue_reply = Inr (JArr [JInt 1]) \<and>
   make_request sample_builtins (sample_server doc_ok auth_ok queue_reply) sample_api
     (JStr ''secret'') ''queue'' ''GET'' False (Val JNull) =
     ([Http \<lparr>meth = ''GET'', url = ''http://localhost:26538/api/v1/queue'',
             bearer = Some (JStr ''secret''), payload = Val JNull\<rparr>,
       Print [Str (JArr [JInt 1])]],
      Inr ()) \<and>
   Print [Dump (Val (JArr [JInt 1]))] \<notin>
     set (fst (make_request sample_builtins (sample_server doc_ok auth_ok queue_reply) sample_api
                 (JStr ''secret'') ''queue'' ''GET'' False (Val JNull)))"
  by (simp add: sample_defs client_defs string_defs)

text \<open>
  Claim C8, amended. For a 2xx response to the dispatched request, after the request and
  the verbose lines: a body that \<^verbatim>\<open>strip()\<close> empties (empty or only whitespace) prints no
  result; a body that parses to a non-empty JSON object is printed by
  \<^verbatim>\<open>json.dumps(..., indent=2)\<close>; a body that parses to any other truthy value, an array
  included, is printed as it is; a body that is no JSON (\<^verbatim>\<open>response.json()\<close> raises a
  \<^verbatim>\<open>ValueError\<close>) is printed as its text without the surrounding whitespace.
\<close>

theorem make_request_success_output:
  assumes "req = \<lparr>meth = http_method, url = request_url self endpoint, bearer = Some token,
                   payload = post_data\<rparr>"
    and "post_data = Val JNull \<or> encodable post_data"
    and "http req = Some r"
    and "200 \<le> status_code r" and "status_code r < 300"
    and "pre =
           (if verbose \<and> http_method \<in> {''POST'', ''PATCH''} \<and> post_data \<noteq> Val JNull
            then [Print [Dump post_data]] else []) @
           Http req #
           (if verbose
            then [Print [Lit http_method, Lit '' '', Lit (request_url self endpoint), Lit '' '',
                         Num (status_code r)]]
            else [])"
  shows
    "(str_strip bi (resp_text r) = [] \<longrightarrow>
        make_request bi http self token endpoint http_method verbose post_data =
          (pre, Inr ())) \<and>
     (\<forall>kvs. str_strip bi (resp_text r) \<noteq> [] \<and> resp_json r = Inr (JObj kvs) \<and> kvs \<noteq> [] \<longrightarrow>
        make_request bi http self token endpoint http_method verbose post_data =
          (pre @ [Print [Dump (Val (JObj kvs))]], Inr ())) \<and>
     (\<forall>v. str_strip bi (resp_text r) \<noteq> [] \<and> resp_json r = Inr v \<and> \<not> is_dict v \<and>
          truthy v \<longrightarrow>
        make_request bi http self token endpoint http_method verbose post_data =
          (pre @ [Print [Str v]], Inr ())) \<and>
     (\<forall>e. str_strip bi (resp_text r) \<noteq> [] \<and> resp_json r = Inl e \<and> is_value_error e \<longrightarrow>
        make_request bi http self token endpoint http_method verbose post_data =
          (pre @ [Print [Str (JStr (str_strip bi (resp_text r)))]], Inr ()))"
proof -
  have "ok r" using assms(4,5) by (simp add: ok_def)
  with assms show ?thesis
    by (auto simp: make_request_def Let_def then_run_def)
qed

theorem make_request_success_output_witness:
  "make_request sample_builtins (sample_server doc_ok auth_ok no_content) sample_api
     (JStr ''secret'') ''play'' ''POST'' False (Val JNull) =
     ([Http \<lparr>meth = ''POST'', url = ''http://localhost:26538/api/v1/play'',
             bearer = Some (JStr ''secret''), payload = Val JNull\<rparr>], Inr ()) \<and>
   make_request sample_builtins (sample_server doc_ok auth_ok object_reply) sample_api
     (JStr ''secret'') ''play'' ''POST'' False (Val JNull) =
     ([Http \<lparr>meth = ''POST'', url = ''http://localhost:26538/api/v1/play'',
             bearer = Some (JStr ''secret''), payload = Val JNull\<rparr>,
       Print [Dump (Val (JObj [(''state'', JInt 1)]))]], Inr ()) \<and>
   make_request sample_builtins (sample_server doc_ok auth_ok queue_reply) sample_api
     (JStr ''secret'') ''play'' ''POST'' False (Val JNull) =
     ([Http \<lparr>meth = ''POST'', url = ''http://localhost:26538/api/v1/play'',
             bearer = Some (JStr ''secret''), payload = Val JNull\<rparr>,
       Print [Str (JArr [JInt 1])]], Inr ()) \<and>
   make_request sample_builtins (sample_server doc_ok auth_ok text_reply) sample_api
     (JStr ''secret'') ''play'' ''POST'' False (Val JNull) =
     ([Http \<lparr>meth = ''POST'', url = ''http://localhost:26538/api/v1/play'',
             bearer = Some (JStr ''secret''), payload = Val JNull\<rparr>,
       Print [Str (JStr ''done'')]], Inr ())"
proof -
  let ?req = "\<lparr>meth = ''POST'', url = request_url sample_api ''play'',
                bearer = Some (JStr ''secret''), payload = Val JNull\<rparr>"
  note inst = make_request_success_output
    [where req = ?req and http_method = "''POST''" and self = sample_api and
       endpoint = "''play''" and token = "JStr ''secret''" and post_data = "Val JNull" and
       verbose = False and pre = "[Http ?req]" and bi = sample_builtins]
  note texts = sample_builtins_def sample_strip_def ascii_space_def
  have empty: "make_request sample_builtins (sample_server doc_ok auth_ok no_content)
      sample_api (JStr ''secret'') ''play'' ''POST'' False (Val JNull) = ([Http ?req], Inr ())"
    using inst [where http = "sample_server doc_ok auth_ok no_content" and r = no_content]
    by (simp add: sample_server_def no_content_def texts)
  have object: "make_request sample_builtins (sample_server doc_ok auth_ok object_reply)
      sample_api (JStr ''secret'') ''play'' ''POST'' False (Val JNull) =
      ([Http ?req, Print [Dump (Val (JObj [(''state'', JInt 1)]))]], Inr ())"
    using inst [where http = "sample_server doc_ok auth_ok object_reply" and r = object_reply]
    by (simp add: sample_server_def object_reply_def texts)
  have array: "make_request sample_builtins (sample_server doc_ok auth_ok queue_reply)
      sample_api (JStr ''secret'') ''play'' ''POST'' False (Val JNull) =
      ([Http ?req, Print [Str (JArr [JInt 1])]], Inr ())"
    using inst [where http = "sample_server doc_ok auth_ok queue_reply" and r = queue_reply]
    by (simp add: sample_server_def queue_reply_def texts)
  have plain: "make_request sample_builtins (sample_server doc_ok auth_ok text_reply)
      sample_api (JStr ''secret'') ''play'' ''POST'' False (Val JNull) =
      ([Http ?req, Print [Str (JStr ''done'')]], Inr ())"
    using inst [where http = "sample_server doc_ok auth_ok text_reply" and r = text_reply]
    by (simp add: sample_server_def text_reply_def texts)
  from empty object array plain show ?thesis
    by (simp add: request_url_def sample_api_def)
qed

lemma dropWhile_replicate_append: "P c \<Longrightarrow> dropWhile P (replicate n c @ xs) = dropWhile P xs"
  by (induction n) simp_all

lemma rstrip_append_replicate: "rstrip c (s @ replicate n c) = rstrip c s"
  by (simp add: rstrip_def dropWhile_replicate_append)

lemma rstrip_idem: "rstrip c (rstrip c s) = rstrip c s"
  by (simp add: rstrip_def)

text \<open>
  Claim C10. A client built from a server URL and an API prefix with any number of
  trailing slashes is the client built from the stripped values: the same authentication
  call, discovery call and request URL, and the same run of \<^verbatim>\<open>main\<close>.
\<close>

theorem trailing_slashes_ignored:
  "API_init (s @ replicate n CHR ''/'') (a @ replicate k CHR ''/'') =
     API_init (rstrip CHR ''/'' s) (rstrip CHR ''/'' a) \<and>
   auth_request (API_init (s @ replicate n CHR ''/'') (a @ replicate k CHR ''/'')) username =
     auth_request (API_init (rstrip CHR ''/'' s) (rstrip CHR ''/'' a)) username \<and>
   doc_request (API_init (s @ replicate n CHR ''/'') (a @ replicate k CHR ''/'')) =
     doc_request (API_init (rstrip CHR ''/'' s) (rstrip CHR ''/'' a)) \<and>
   request_url (API_init (s @ replicate n CHR ''/'') (a @ replicate k CHR ''/'')) endpoint =
     request_url (API_init (rstrip CHR ''/'' s) (rstrip CHR ''/'' a)) endpoint \<and>
   main bi http
     (args\<lparr>a_server := s @ replicate n CHR ''/'', a_api := a @ replicate k CHR ''/''\<rparr>) =
     main bi http (args\<lparr>a_server := rstrip CHR ''/'' s, a_api := rstrip CHR ''/'' a\<rparr>)"
proof -
  have same: "API_init (s @ replicate n CHR ''/'') (a @ replicate k CHR ''/'') =
                API_init (rstrip CHR ''/'' s) (rstrip CHR ''/'' a)"
    by (simp add: API_init_def rstrip_append_replicate rstrip_idem)
  have resolve: "determine_http_method (args\<lparr>a_server := x, a_api := y\<rparr>) endpoints =
                   determine_http_method args endpoints" for x y endpoints
    by (simp add: determine_http_method_def)
  have shape: "process_post_data bi m (args\<lparr>a_server := x, a_api := y\<rparr>) endpoints =
                 process_post_data bi m args endpoints" for x y m endpoints
    by (simp add: process_post_data_def endpoint_str_def Let_def
        cong: if_cong option.case_cong)
  have "main bi http
          (args\<lparr>a_server := s @ replicate n CHR ''/'', a_api := a @ replicate k CHR ''/''\<rparr>) =
        main bi http (args\<lparr>a_server := rstrip CHR ''/'' s, a_api := rstrip CHR ''/'' a\<rparr>)"
    by (simp add: main_def Let_def API_init_def rstrip_append_replicate rstrip_idem
        resolve shape split: option.split cong: if_cong)
  with same show ?thesis by simp
qed

theorem trailing_slashes_ignored_witness:
  "main sample_builtins (sample_server doc_ok auth_ok no_content)
     (sample_args\<lparr>a_server := ''http://localhost:26538//'', a_api := ''/api/v1/''\<rparr>) =
   main sample_builtins (sample_server doc_ok auth_ok no_content)
     (sample_args\<lparr>a_server := ''http://localhost:26538'', a_api := ''/api/v1''\<rparr>) \<and>
   request_url (API_init ''http://localhost:26538//'' ''/api/v1/'') ''volume'' =
     ''http://localhost:26538/api/v1/volume''"
  using trailing_slashes_ignored
    [of "''http://localhost:26538''" 2 "''/api/v1''" 1 "''youtube-music-control''" "''volume''"
        sample_builtins "sample_server doc_ok auth_ok no_content" sample_args]
  by (simp add: API_init_def rstrip_def request_url_def numeral_2_eq_2)

end
